theory Spec2Isabelle
  imports Main "HOL-Library.Word"
begin

unbundle bit_operations_syntax

section \<open>The conversion front end of scidown: \<open>bin/scidown.c\<close>\<close>

text \<open>
  The file holds the descriptor tables of the command line (categories, extensions,
  HTML flags), the defaults, and one function, \<open>md2html\<close>, which drives a single
  conversion through the hoedown/scidown library. The library itself (\<open>document.h\<close>,
  \<open>html.h\<close>, \<open>latex.h\<close>, \<open>buffer.h\<close>) is not part of the file: its enumeration values and
  its render function are parameters of the model, its handles are the constructor calls
  that made them.
\<close>

subsection \<open>Data of the library that the file names\<close>

type_synonym byte = "8 word"

text \<open>The names of \<open>hoedown_extensions\<close> (\<open>document.h\<close>) that the file uses.\<close>

datatype hoedown_extension =
    HOEDOWN_EXT_TABLES
  | HOEDOWN_EXT_FENCED_CODE
  | HOEDOWN_EXT_FOOTNOTES
  | HOEDOWN_EXT_AUTOLINK
  | HOEDOWN_EXT_STRIKETHROUGH
  | HOEDOWN_EXT_UNDERLINE
  | HOEDOWN_EXT_HIGHLIGHT
  | HOEDOWN_EXT_QUOTE
  | HOEDOWN_EXT_SUPERSCRIPT
  | HOEDOWN_EXT_MATH
  | HOEDOWN_EXT_NO_INTRA_EMPHASIS
  | HOEDOWN_EXT_SPACE_HEADERS
  | HOEDOWN_EXT_MATH_EXPLICIT
  | HOEDOWN_EXT_SCI
  | HOEDOWN_EXT_DISABLE_INDENTED_CODE
  | HOEDOWN_EXT_BLOCK
  | HOEDOWN_EXT_SPAN
  | HOEDOWN_EXT_FLAGS
  | HOEDOWN_EXT_NEGATIVE

text \<open>The names of \<open>scidown_render_flags\<close> (\<open>html.h\<close>) that the file uses.\<close>

datatype scidown_render_flag =
    SCIDOWN_RENDER_SKIP_HTML
  | SCIDOWN_RENDER_ESCAPE
  | SCIDOWN_RENDER_HARD_WRAP
  | SCIDOWN_RENDER_USE_XHTML
  | SCIDOWN_RENDER_MERMAID
  | SCIDOWN_RENDER_GNUPLOT
  | SCIDOWN_RENDER_CSS
  | SCIDOWN_RENDER_CHARTER

record localization =
  figure :: string
  listing :: string
  table :: string

text \<open>\<open>ext_definition\<close>: two C strings, either of which may be \<open>NULL\<close> (\<open>None\<close>).\<close>

record ext_definition =
  extra_header :: "string option"
  extra_closing :: "string option"

text \<open>
  A renderer handle is the constructor call that returned it; the three constructors are
  the three functions \<open>md2html\<close> calls. \<open>None\<close> is the \<open>NULL\<close> the variable starts with.
\<close>

datatype hoedown_renderer =
    hoedown_html_renderer_new "32 word" int localization
  | hoedown_html_toc_renderer_new int localization
  | scidown_latex_renderer_new "32 word" int localization

text \<open>
  The release function for renderer handles: the file names one, and a variable of type
  pointer to such a function holds it or \<open>NULL\<close> (\<open>None\<close>).
\<close>

datatype renderer_teardown = hoedown_html_renderer_free

text \<open>
  \<open>hoedown_buffer\<close>: the bytes written so far (\<open>data\<close> with \<open>size\<close> their number) and
  the allocation unit.
\<close>

record hoedown_buffer =
  buf_data :: "byte list"
  buf_unit :: nat

text \<open>
  Modelled from the spec: the buffer operations of \<open>buffer.h\<close>, "create(capacity),
  load(bytes)": a new buffer is empty, \<open>hoedown_buffer_set\<close> replaces the contents by
  the given bytes.
\<close>

definition hoedown_buffer_new :: "nat \<Rightarrow> hoedown_buffer" where
  "hoedown_buffer_new unit = \<lparr>buf_data = [], buf_unit = unit\<rparr>"

definition hoedown_buffer_set :: "hoedown_buffer \<Rightarrow> byte list \<Rightarrow> hoedown_buffer" where
  "hoedown_buffer_set buf bytes = buf\<lparr>buf_data := bytes\<rparr>"

text \<open>
  A document is what \<open>hoedown_document_new\<close> was given: the renderer, the extensions,
  the \<open>ext_definition\<close>, a pointer (\<open>None\<close> for \<open>NULL\<close>, which is what \<open>md2html\<close>
  passes) and the nesting limit.
\<close>

record hoedown_document =
  doc_renderer :: "hoedown_renderer option"
  doc_extensions :: "32 word"
  doc_ext :: ext_definition
  doc_pointer :: "unit option"
  doc_max_nesting :: nat

definition hoedown_document_new ::
  "hoedown_renderer option \<Rightarrow> 32 word \<Rightarrow> ext_definition \<Rightarrow> unit option \<Rightarrow> nat
     \<Rightarrow> hoedown_document" where
  "hoedown_document_new renderer extensions ext pointer max_nesting =
     \<lparr>doc_renderer = renderer, doc_extensions = extensions, doc_ext = ext,
      doc_pointer = pointer, doc_max_nesting = max_nesting\<rparr>"

text \<open>
  What the headers define and the file does not: the values of the two enumerations and
  \<open>hoedown_document_render\<close>, which takes the document, the output buffer, the input
  bytes and the last argument of the call, and leaves the output buffer as returned here.
\<close>

record library =
  ext_bits :: "hoedown_extension \<Rightarrow> 32 word"
  render_bits :: "scidown_render_flag \<Rightarrow> 32 word"
  hoedown_document_render ::
    "hoedown_document \<Rightarrow> hoedown_buffer \<Rightarrow> byte list \<Rightarrow> int \<Rightarrow> hoedown_buffer"

text \<open>
  What one call meets outside the library: the two values of \<open>clock()\<close> and whether
  \<open>malloc\<close> returns memory. \<open>clock_t\<close> is the signed 64-bit \<open>long\<close> of the LP64
  platforms, read with \<open>sint\<close>; \<open>(clock_t) -1\<close> is the word \<open>- 1\<close>. \<open>CLOCKS_PER_SEC\<close>
  is the million that POSIX fixes.
\<close>

type_synonym clock_t = "64 word"

record environment =
  clock_first :: clock_t
  clock_second :: clock_t
  malloc_succeeds :: bool

definition CLOCKS_PER_SEC :: int where
  "CLOCKS_PER_SEC = 1000000"

subsection \<open>Features and defaults\<close>

datatype renderer_type = RENDERER_HTML | RENDERER_LATEX | RENDERER_HTML_TOC

record extension_category_info =
  flags :: "32 word"
  option_name :: string
  label :: string

record extension_info =
  flag :: "32 word"
  option_name :: string
  description :: string

text \<open>\<open>struct html_flag_info\<close> has the fields of \<open>struct extension_info\<close>.\<close>

type_synonym html_flag_info = extension_info

definition categories_info :: "library \<Rightarrow> extension_category_info list" where
  "categories_info L =
    [\<lparr>flags = ext_bits L HOEDOWN_EXT_BLOCK, extension_category_info.option_name = ''block'',
      label = ''Block extensions''\<rparr>,
     \<lparr>flags = ext_bits L HOEDOWN_EXT_SPAN, extension_category_info.option_name = ''span'',
      label = ''Span extensions''\<rparr>,
     \<lparr>flags = ext_bits L HOEDOWN_EXT_FLAGS, extension_category_info.option_name = ''flags'',
      label = ''Other flags''\<rparr>,
     \<lparr>flags = ext_bits L HOEDOWN_EXT_NEGATIVE, extension_category_info.option_name = ''negative'',
      label = ''Negative flags''\<rparr>]"

definition extensions_info :: "library \<Rightarrow> extension_info list" where
  \<open>extensions_info L =
    [\<lparr>flag = ext_bits L HOEDOWN_EXT_TABLES, option_name = ''tables'',
      description = ''Parse PHP-Markdown style tables.''\<rparr>,
     \<lparr>flag = ext_bits L HOEDOWN_EXT_FENCED_CODE, option_name = ''fenced-code'',
      description = ''Parse fenced code blocks.''\<rparr>,
     \<lparr>flag = ext_bits L HOEDOWN_EXT_FOOTNOTES, option_name = ''footnotes'',
      description = ''Parse footnotes.''\<rparr>,
     \<lparr>flag = ext_bits L HOEDOWN_EXT_AUTOLINK, option_name = ''autolink'',
      description = ''Automatically turn safe URLs into links.''\<rparr>,
     \<lparr>flag = ext_bits L HOEDOWN_EXT_STRIKETHROUGH, option_name = ''strikethrough'',
      description = ''Parse ~~stikethrough~~ spans.''\<rparr>,
     \<lparr>flag = ext_bits L HOEDOWN_EXT_UNDERLINE, option_name = ''underline'',
      description = ''Parse _underline_ instead of emphasis.''\<rparr>,
     \<lparr>flag = ext_bits L HOEDOWN_EXT_HIGHLIGHT, option_name = ''highlight'',
      description = ''Parse ==highlight== spans.''\<rparr>,
     \<lparr>flag = ext_bits L HOEDOWN_EXT_QUOTE, option_name = ''quote'',
      description = ''Render "quotes" as <q>quotes</q>.''\<rparr>,
     \<lparr>flag = ext_bits L HOEDOWN_EXT_SUPERSCRIPT, option_name = ''superscript'',
      description = ''Parse super^script.''\<rparr>,
     \<lparr>flag = ext_bits L HOEDOWN_EXT_MATH, option_name = ''math'',
      description = ''Parse TeX $$math$$ syntax, Kramdown style.''\<rparr>,
     \<lparr>flag = ext_bits L HOEDOWN_EXT_NO_INTRA_EMPHASIS, option_name = ''disable-intra-emphasis'',
      description = ''Disable emphasis_between_words.''\<rparr>,
     \<lparr>flag = ext_bits L HOEDOWN_EXT_SPACE_HEADERS, option_name = ''space-headers'',
      description = ''Require a space after '#' in headers.''\<rparr>,
     \<lparr>flag = ext_bits L HOEDOWN_EXT_MATH_EXPLICIT, option_name = ''math-explicit'',
      description = ''Instead of guessing by context, parse $inline math$ and $$always block math$$ (requires --math).''\<rparr>,
     \<lparr>flag = ext_bits L HOEDOWN_EXT_SCI, option_name = ''scidown'',
      description = ''SciDown Extension''\<rparr>,
     \<lparr>flag = ext_bits L HOEDOWN_EXT_DISABLE_INDENTED_CODE, option_name = ''disable-indented-code'',
      description = ''Don't parse indented code blocks.''\<rparr>]\<close>

definition html_flags_info :: "library \<Rightarrow> html_flag_info list" where
  "html_flags_info L =
    [\<lparr>flag = render_bits L SCIDOWN_RENDER_SKIP_HTML, option_name = ''skip-html'',
      description = ''Strip all HTML tags.''\<rparr>,
     \<lparr>flag = render_bits L SCIDOWN_RENDER_ESCAPE, option_name = ''escape'',
      description = ''Escape all HTML.''\<rparr>,
     \<lparr>flag = render_bits L SCIDOWN_RENDER_HARD_WRAP, option_name = ''hard-wrap'',
      description = ''Render each linebreak as <br>.''\<rparr>,
     \<lparr>flag = render_bits L SCIDOWN_RENDER_USE_XHTML, option_name = ''xhtml'',
      description = ''Render XHTML.''\<rparr>,
     \<lparr>flag = render_bits L SCIDOWN_RENDER_MERMAID, option_name = ''mermaid'',
      description = ''Render mermaid diagrams.''\<rparr>,
     \<lparr>flag = render_bits L SCIDOWN_RENDER_GNUPLOT, option_name = ''gnuplot'',
      description = ''Render gnuplot plot.''\<rparr>,
     \<lparr>flag = render_bits L SCIDOWN_RENDER_CSS, option_name = ''style'',
      description = ''Set specified style-sheet.''\<rparr>]"

definition category_prefix :: string where
  "category_prefix = ''all-''"

definition negative_prefix :: string where
  "negative_prefix = ''no-''"

definition DEF_IUNIT :: nat where
  "DEF_IUNIT = 1024"

definition DEF_OUNIT :: nat where
  "DEF_OUNIT = 64"

definition DEF_MAX_NESTING :: nat where
  "DEF_MAX_NESTING = 16"

definition get_local :: localization where
  "get_local = \<lparr>figure = ''Figure'', listing = ''Listing'', table = ''Table''\<rparr>"

subsection \<open>Option data\<close>

record option_data =
  show_time :: int
  iunit :: nat
  ounit :: nat
  renderer :: renderer_type
  toc_level :: int
  render_flags :: "32 word"
  extensions :: "32 word"
  max_nesting :: nat

subsection \<open>What a run does, in order\<close>

text \<open>
  Each call that \<open>md2html\<close> makes is recorded, with the variable a buffer is bound to
  (\<open>ib\<close> or \<open>ob\<close>) standing for the buffer.
\<close>

datatype buffer_variable = ib | ob

datatype message =
    Failed_to_get_the_time
  | Time_spent_ms int
  | Time_spent_s int

datatype event =
    Buffer_new buffer_variable nat
  | Buffer_set buffer_variable "byte list"
  | Renderer_new "hoedown_renderer option"
  | Document_new hoedown_document
  | Clock clock_t
  | Document_render hoedown_document "byte list"
  | Buffer_free buffer_variable
  | Document_free hoedown_document
  | Renderer_free renderer_teardown "hoedown_renderer option"
  | Malloc nat bool
  | Memcpy nat
  | Fprintf_stderr message

text \<open>
  The ways of not returning that are written in the file itself: \<open>memcpy\<close> into the
  \<open>NULL\<close> of a failed \<open>malloc\<close>, and a call through \<open>renderer_free\<close> were it still
  \<open>NULL\<close>.
\<close>

datatype fault = Null_pointer_write | Null_function_call

text \<open>
  What the caller has after the return: the return value, \<open>*output_data\<close> (\<open>None\<close>
  for a \<open>NULL\<close> pointer, else the bytes of the region), \<open>*output_size\<close>, and the calls
  made.
\<close>

record outcome =
  ret :: int
  output_data :: "byte list option"
  output_size :: nat
  trace :: "event list"

subsection \<open>\<open>md2html\<close>\<close>

text \<open>The assignments under "Parse options".\<close>

definition baseline :: "library \<Rightarrow> option_data" where
  "baseline L =
     \<lparr>show_time = 1,
      iunit = DEF_IUNIT,
      ounit = DEF_OUNIT,
      renderer = RENDERER_HTML,
      toc_level = 0,
      render_flags = render_bits L SCIDOWN_RENDER_MERMAID OR render_bits L SCIDOWN_RENDER_CHARTER
        OR render_bits L SCIDOWN_RENDER_GNUPLOT OR render_bits L SCIDOWN_RENDER_CSS,
      extensions = ext_bits L HOEDOWN_EXT_BLOCK OR ext_bits L HOEDOWN_EXT_SPAN
        OR ext_bits L HOEDOWN_EXT_FLAGS,
      max_nesting = DEF_MAX_NESTING\<rparr>"

text \<open>
  "Create the renderer": the chain of three tests, and the assignment after it, which
  replaces the initial \<open>NULL\<close> of \<open>renderer_free\<close> whatever the renderer is.
\<close>

definition create_renderer :: "option_data \<Rightarrow> hoedown_renderer option" where
  "create_renderer data =
     (if renderer data = RENDERER_HTML
        then Some (hoedown_html_renderer_new (render_flags data) (toc_level data) get_local)
      else if renderer data = RENDERER_HTML_TOC
        then Some (hoedown_html_toc_renderer_new (toc_level data) get_local)
      else if renderer data = RENDERER_LATEX
        then Some (scidown_latex_renderer_new (render_flags data) (toc_level data) get_local)
      else None)"

definition renderer_free :: "option_data \<Rightarrow> renderer_teardown option" where
  "renderer_free data = Some hoedown_html_renderer_free"

definition html_extra_header :: string where
  \<open>html_extra_header =
     ''<link rel="stylesheet" href="qrc:/web_res/ajax/libs/KaTeX/0.11.1/katex.min.css" crossorigin="anonymous">''
   @ ''<link rel="stylesheet" href="qrc:/web_res/ajax/libs/highlight.js/9.18.1/styles/xcode.min.css">''
   @ ''<script src="qrc:/web_res/ajax/libs/KaTeX/0.11.1/katex.min.js" crossorigin="anonymous"></script>\<newline>''
   @ ''<script src="qrc:/web_res/ajax/libs/KaTeX/0.11.1/contrib/auto-render.min.js" crossorigin="anonymous"></script>\<newline>''
   @ ''<script src="qrc:/web_res/ajax/libs/highlight.js/9.18.1/highlight.min.js"></script>''
   @ ''<script src="qrc:/web_res/npm/mermaid@8.4.0/dist/mermaid.min.js"></script>''\<close>

definition html_extra_closing :: string where
  \<open>html_extra_closing =
     ''<style>@font-face {\<newline>''
   @ ''    font-family: 'HiraginoSans';\<newline>''
   @ ''    src: url('qrc:/web_res/HiraginoSansGBW6.otf');\<newline>''
   @ ''    font-weight: 300;\<newline>''
   @ ''    font-style: normal;\<newline>''
   @ ''  }''
   @ ''body {''
   @ ''   font-family: 'HiraginoSans';''
   @ ''}''
   @ '' </style>''
   @ ''<script>renderMathInElement(document.body); hljs.initHighlightingOnLoad(); mermaid.initialize({startOnLoad:true});</script>\<newline>''\<close>

text \<open>\<open>ext\<close> starts as \<open>{NULL, NULL}\<close> and is filled for the HTML renderer only.\<close>

definition make_ext :: "option_data \<Rightarrow> ext_definition" where
  "make_ext data =
     (let ext = \<lparr>extra_header = None, extra_closing = None\<rparr>
      in if renderer data = RENDERER_HTML
           then ext\<lparr>extra_header := Some html_extra_header,
                    extra_closing := Some html_extra_closing\<rparr>
         else ext)"

text \<open>\<open>memcpy(dst, src, n)\<close> on a region of \<open>n\<close> bytes: the region holds the first \<open>n\<close> bytes of \<open>src\<close>.\<close>

definition memcpy :: "byte list \<Rightarrow> nat \<Rightarrow> byte list" where
  "memcpy src n = take n src"

text \<open>
  The timing report. \<open>t2 - t1\<close> is a subtraction of \<open>clock_t\<close> values, so it wraps, and
  its signed value is what is converted to \<open>double\<close> and divided by \<open>CLOCKS_PER_SEC\<close>:
  \<open>elapsed < 1\<close> holds when that signed number of ticks is below \<open>CLOCKS_PER_SEC\<close>.
  The message carries the ticks, not the formatted number.
\<close>

definition time_message :: "clock_t \<Rightarrow> clock_t \<Rightarrow> message" where
  "time_message t1 t2 =
     (let ticks = sint (t2 - t1)
      in if ticks < CLOCKS_PER_SEC then Time_spent_ms ticks else Time_spent_s ticks)"

text \<open>
  The body of \<open>md2html\<close> from "Read everything" on, for any option data. The calls up to
  \<open>hoedown_document_free(document)\<close> always happen; then the call through
  \<open>renderer_free\<close>, \<open>malloc\<close> and \<open>memcpy\<close>, the two stores through the caller's
  pointers and the release of \<open>ob\<close>; then the timing report.
  Copying zero bytes touches no memory, so a failed \<open>malloc\<close> faults only when there
  are bytes to copy. The locals \<open>renderer\<close> and \<open>renderer_free\<close> are written \<open>rndr\<close>
  and \<open>rfree\<close>, the two states of each buffer are numbered.
\<close>

definition md2html_body ::
  "library \<Rightarrow> environment \<Rightarrow> option_data \<Rightarrow> byte list \<Rightarrow> (fault \<times> event list) + outcome" where
  "md2html_body L E data input_data =
     (let ib0 = hoedown_buffer_new (iunit data);
          ib1 = hoedown_buffer_set ib0 input_data;
          rndr = create_renderer data;
          rfree = renderer_free data;
          ob0 = hoedown_buffer_new (ounit data);
          ext = make_ext data;
          document = hoedown_document_new rndr (extensions data) ext None (max_nesting data);
          t1 = clock_first E;
          ob1 = hoedown_document_render L document ob0 (buf_data ib1) (- 1);
          t2 = clock_second E;
          n = length (buf_data ob1);
          calls =
            [Buffer_new ib (iunit data), Buffer_set ib input_data, Renderer_new rndr,
             Buffer_new ob (ounit data), Document_new document,
             Clock t1, Document_render document (buf_data ib1), Clock t2,
             Buffer_free ib, Document_free document]
      in case rfree of
           None \<Rightarrow> Inl (Null_function_call, calls)
         | Some teardown \<Rightarrow>
             let calls = calls @ [Renderer_free teardown rndr, Malloc n (malloc_succeeds E)]
             in if \<not> malloc_succeeds E \<and> 0 < n then Inl (Null_pointer_write, calls)
                else
                  let output =
                        (if malloc_succeeds E then Some (memcpy (buf_data ob1) n) else None);
                      calls = calls @ [Memcpy n, Buffer_free ob]
                  in if show_time data \<noteq> 0 then
                       if t1 = - 1 \<or> t2 = - 1 then
                         Inr \<lparr>ret = 1, output_data = output, output_size = n,
                              trace = calls @ [Fprintf_stderr Failed_to_get_the_time]\<rparr>
                       else
                         Inr \<lparr>ret = 0, output_data = output, output_size = n,
                              trace = calls @ [Fprintf_stderr (time_message t1 t2)]\<rparr>
                     else
                       Inr \<lparr>ret = 0, output_data = output, output_size = n, trace = calls\<rparr>)"

text \<open>\<open>md2html\<close> itself: the body on the option data it assigns.\<close>

definition md2html :: "library \<Rightarrow> environment \<Rightarrow> byte list \<Rightarrow> (fault \<times> event list) + outcome" where
  "md2html L E input_data = md2html_body L E (baseline L) input_data"

subsection \<open>The parts of a run, named\<close>

text \<open>The document \<open>md2html\<close> builds, and the bytes in \<open>ob\<close> when the render call is back.\<close>

definition document_of :: "option_data \<Rightarrow> hoedown_document" where
  "document_of data =
     hoedown_document_new (create_renderer data) (extensions data) (make_ext data) None
       (max_nesting data)"

definition rendered :: "library \<Rightarrow> option_data \<Rightarrow> byte list \<Rightarrow> byte list" where
  "rendered L data input_data =
     buf_data (hoedown_document_render L (document_of data) (hoedown_buffer_new (ounit data))
       input_data (- 1))"

definition calls_before_copy ::
  "library \<Rightarrow> environment \<Rightarrow> option_data \<Rightarrow> byte list \<Rightarrow> event list" where
  "calls_before_copy L E data input_data =
     [Buffer_new ib (iunit data), Buffer_set ib input_data, Renderer_new (create_renderer data),
      Buffer_new ob (ounit data), Document_new (document_of data),
      Clock (clock_first E), Document_render (document_of data) input_data, Clock (clock_second E),
      Buffer_free ib, Document_free (document_of data),
      Renderer_free hoedown_html_renderer_free (create_renderer data),
      Malloc (length (rendered L data input_data)) (malloc_succeeds E)]"

definition report :: "environment \<Rightarrow> option_data \<Rightarrow> event list" where
  "report E data =
     (if show_time data = 0 then []
      else if clock_first E = - 1 \<or> clock_second E = - 1
        then [Fprintf_stderr Failed_to_get_the_time]
      else [Fprintf_stderr (time_message (clock_first E) (clock_second E))])"

text \<open>The calls of a run, whichever way it ends, and the bytes the caller can read.\<close>

fun calls_of :: "(fault \<times> event list) + outcome \<Rightarrow> event list" where
  "calls_of (Inl (f, es)) = es"
| "calls_of (Inr r) = trace r"

fun returned_value :: "(fault \<times> event list) + outcome \<Rightarrow> int option" where
  "returned_value (Inl _) = None"
| "returned_value (Inr r) = Some (ret r)"

text \<open>The calls that make or release a renderer, and the documents constructed.\<close>

fun renderer_call :: "event \<Rightarrow> bool" where
  "renderer_call (Renderer_new _) = True"
| "renderer_call (Renderer_free _ _) = True"
| "renderer_call _ = False"

fun document_built :: "event \<Rightarrow> hoedown_document option" where
  "document_built (Document_new d) = Some d"
| "document_built _ = None"

definition documents_built :: "event list \<Rightarrow> hoedown_document list" where
  "documents_built es = List.map_filter document_built es"

definition delivered :: "outcome \<Rightarrow> byte list" where
  "delivered r = (case output_data r of None \<Rightarrow> [] | Some bs \<Rightarrow> take (output_size r) bs)"

subsection \<open>Resources\<close>

datatype resource = Input_buffer | Output_buffer | The_document | The_renderer

fun acquired :: "event \<Rightarrow> resource option" where
  "acquired (Buffer_new ib _) = Some Input_buffer"
| "acquired (Buffer_new ob _) = Some Output_buffer"
| "acquired (Document_new _) = Some The_document"
| "acquired (Renderer_new (Some _)) = Some The_renderer"
| "acquired _ = None"

fun released :: "event \<Rightarrow> resource option" where
  "released (Buffer_free ib) = Some Input_buffer"
| "released (Buffer_free ob) = Some Output_buffer"
| "released (Document_free _) = Some The_document"
| "released (Renderer_free _ (Some _)) = Some The_renderer"
| "released _ = None"

definition acquisitions :: "event list \<Rightarrow> resource list" where
  "acquisitions es = List.map_filter acquired es"

definition releases :: "event list \<Rightarrow> resource list" where
  "releases es = List.map_filter released es"

text \<open>
  Following the calls with the list of resources held: an acquisition adds, a release
  removes, and a release of something not held is an error (\<open>None\<close>).
\<close>

fun audit :: "resource list \<Rightarrow> event list \<Rightarrow> resource list option" where
  "audit held [] = Some held"
| "audit held (e # es) =
     (case acquired e of
        Some x \<Rightarrow> audit (held @ [x]) es
      | None \<Rightarrow>
         (case released e of
            Some x \<Rightarrow> if x \<in> set held then audit (removeAll x held) es else None
          | None \<Rightarrow> audit held es))"

subsection \<open>A library and an environment to run on\<close>

text \<open>
  Sample values for the enumerations: the rows of \<open>extensions_info\<close> and of
  \<open>html_flags_info\<close> get one bit each in table order, a category the bits of a group of
  rows. The sample render call appends the input to the output buffer.
\<close>

fun sample_ext_bits :: "hoedown_extension \<Rightarrow> 32 word" where
  "sample_ext_bits HOEDOWN_EXT_TABLES = 0x1"
| "sample_ext_bits HOEDOWN_EXT_FENCED_CODE = 0x2"
| "sample_ext_bits HOEDOWN_EXT_FOOTNOTES = 0x4"
| "sample_ext_bits HOEDOWN_EXT_AUTOLINK = 0x8"
| "sample_ext_bits HOEDOWN_EXT_STRIKETHROUGH = 0x10"
| "sample_ext_bits HOEDOWN_EXT_UNDERLINE = 0x20"
| "sample_ext_bits HOEDOWN_EXT_HIGHLIGHT = 0x40"
| "sample_ext_bits HOEDOWN_EXT_QUOTE = 0x80"
| "sample_ext_bits HOEDOWN_EXT_SUPERSCRIPT = 0x100"
| "sample_ext_bits HOEDOWN_EXT_MATH = 0x200"
| "sample_ext_bits HOEDOWN_EXT_NO_INTRA_EMPHASIS = 0x400"
| "sample_ext_bits HOEDOWN_EXT_SPACE_HEADERS = 0x800"
| "sample_ext_bits HOEDOWN_EXT_MATH_EXPLICIT = 0x1000"
| "sample_ext_bits HOEDOWN_EXT_SCI = 0x2000"
| "sample_ext_bits HOEDOWN_EXT_DISABLE_INDENTED_CODE = 0x4000"
| "sample_ext_bits HOEDOWN_EXT_BLOCK = 0x7"
| "sample_ext_bits HOEDOWN_EXT_SPAN = 0x3F8"
| "sample_ext_bits HOEDOWN_EXT_FLAGS = 0x3C00"
| "sample_ext_bits HOEDOWN_EXT_NEGATIVE = 0x4000"

fun sample_render_bits :: "scidown_render_flag \<Rightarrow> 32 word" where
  "sample_render_bits SCIDOWN_RENDER_SKIP_HTML = 0x1"
| "sample_render_bits SCIDOWN_RENDER_ESCAPE = 0x2"
| "sample_render_bits SCIDOWN_RENDER_HARD_WRAP = 0x4"
| "sample_render_bits SCIDOWN_RENDER_USE_XHTML = 0x8"
| "sample_render_bits SCIDOWN_RENDER_MERMAID = 0x10"
| "sample_render_bits SCIDOWN_RENDER_GNUPLOT = 0x20"
| "sample_render_bits SCIDOWN_RENDER_CSS = 0x40"
| "sample_render_bits SCIDOWN_RENDER_CHARTER = 0x80"

definition sample_library :: library where
  "sample_library =
     \<lparr>ext_bits = sample_ext_bits,
      render_bits = sample_render_bits,
      hoedown_document_render = (\<lambda>document buf bytes n. buf\<lparr>buf_data := buf_data buf @ bytes\<rparr>)\<rparr>"

definition sample_environment :: environment where
  "sample_environment =
     \<lparr>clock_first = 10, clock_second = 25, malloc_succeeds = True\<rparr>"

definition clock_failure_environment :: environment where
  "clock_failure_environment =
     \<lparr>clock_first = - 1, clock_second = 25, malloc_succeeds = True\<rparr>"

definition malloc_failure_environment :: environment where
  "malloc_failure_environment =
     \<lparr>clock_first = 10, clock_second = 25, malloc_succeeds = False\<rparr>"

definition sample_input :: "byte list" where
  "sample_input = [0x23, 0x20, 0x48, 0x69]"

section \<open>Option resolution\<close>

text \<open>
  \<open>bin/scidown.c\<close> holds the descriptor tables and the two prefixes, and its help text
  names the numeric and the renderer options; the function that applies option tokens to
  the option data is not in the file. It is modelled here from the specification
  (sections 4.1, 4.2 and 6), over the tables of the file.
\<close>

datatype resolution =
    Category_mask "32 word"
  | Extension_bit "32 word"
  | Output_flag_bit "32 word"
  | Not_found

datatype option_error = Unrecognized_option string | Malformed_number string

text \<open>
  Modelled from the spec: the text of a token. The specification writes tokens with the
  two dashes (\<open>--tables\<close>) and without (\<open>max-nesting=16\<close>); both are taken.
\<close>

definition strip_prefix :: "string \<Rightarrow> string \<Rightarrow> string option" where
  "strip_prefix p s = (if take (length p) s = p then Some (drop (length p) s) else None)"

definition option_text :: "string \<Rightarrow> string" where
  "option_text tok = (case strip_prefix ''--'' tok of Some rest \<Rightarrow> rest | None \<Rightarrow> tok)"

text \<open>
  Modelled from the spec: the registry "resolves a textual option name to exactly one of:
  a single extension bit, a single output flag bit, a whole category bitmask, not found";
  a category is named by the category prefix and its option name.
\<close>

definition registry_lookup :: "library \<Rightarrow> string \<Rightarrow> resolution" where
  "registry_lookup L name =
     (case find (\<lambda>c. category_prefix @ extension_category_info.option_name c = name)
             (categories_info L) of
        Some c \<Rightarrow> Category_mask (flags c)
      | None \<Rightarrow>
         (case find (\<lambda>e. option_name e = name) (extensions_info L) of
            Some e \<Rightarrow> Extension_bit (flag e)
          | None \<Rightarrow>
             (case find (\<lambda>h. option_name h = name) (html_flags_info L) of
                Some h \<Rightarrow> Output_flag_bit (flag h)
              | None \<Rightarrow> Not_found)))"

text \<open>
  Modelled from the spec: "name resolution must also recognize a negation form of every
  resolvable name (a fixed prefix applied to the canonical name); negation indicates
  polarity". The result is the resolution and whether the name was negated.
\<close>

definition resolve_name :: "library \<Rightarrow> string \<Rightarrow> resolution \<times> bool" where
  "resolve_name L name =
     (case registry_lookup L name of
        Not_found \<Rightarrow>
          (case strip_prefix negative_prefix name of
             Some rest \<Rightarrow> (registry_lookup L rest, True)
           | None \<Rightarrow> (Not_found, False))
      | found \<Rightarrow> (found, False))"

text \<open>
  Modelled from the spec: the numeric options "nesting limit, TOC depth, chunk sizes",
  written \<open>key=value\<close> under the names of the help text, and the renderer-selection
  tokens, under the names of the help text.
\<close>

definition numeric_keys :: "string list" where
  "numeric_keys = [''max-nesting'', ''toc-level'', ''input-unit'', ''output-unit'']"

definition numeric_option :: "string \<Rightarrow> (string \<times> string) option" where
  "numeric_option name =
     (case find (\<lambda>k. strip_prefix (k @ ''='') name \<noteq> None) numeric_keys of
        Some k \<Rightarrow> Some (k, drop (length k + 1) name)
      | None \<Rightarrow> None)"

definition renderer_option :: "string \<Rightarrow> renderer_type option" where
  "renderer_option name =
     (if name = ''html'' then Some RENDERER_HTML
      else if name = ''latex'' then Some RENDERER_LATEX
      else if name = ''html-toc'' then Some RENDERER_HTML_TOC
      else None)"

text \<open>
  Modelled from the spec: "parse as a non-negative integer; malformed input is an error".
\<close>

definition is_digit :: "char \<Rightarrow> bool" where
  "is_digit c = ((48::nat) \<le> of_char c \<and> of_char c \<le> (57::nat))"

definition parse_number :: "string \<Rightarrow> nat option" where
  "parse_number s =
     (if s \<noteq> [] \<and> list_all is_digit s
        then Some (foldl (\<lambda>n c. 10 * n + (of_char c - 48)) 0 s)
      else None)"

definition set_numeric :: "string \<Rightarrow> nat \<Rightarrow> option_data \<Rightarrow> option_data" where
  "set_numeric key n cfg =
     (if key = ''max-nesting'' then cfg\<lparr>max_nesting := n\<rparr>
      else if key = ''toc-level'' then cfg\<lparr>toc_level := int n\<rparr>
      else if key = ''input-unit'' then cfg\<lparr>iunit := n\<rparr>
      else cfg\<lparr>ounit := n\<rparr>)"

text \<open>
  Modelled from the spec: the algorithm of section 4.2 for one token: a category sets or
  clears its whole mask, a single bit is set or cleared, a numeric option is parsed, a
  renderer token sets the variant, and "otherwise: fail with an unrecognized option
  error".
\<close>

definition set_or_clear :: "bool \<Rightarrow> 32 word \<Rightarrow> 32 word \<Rightarrow> 32 word" where
  "set_or_clear negated bits w = (if negated then w AND NOT bits else w OR bits)"

definition apply_token :: "library \<Rightarrow> option_data \<Rightarrow> string \<Rightarrow> option_error + option_data" where
  "apply_token L cfg tok =
     (let name = option_text tok in
      case resolve_name L name of
        (Category_mask m, negated) \<Rightarrow>
          Inr (cfg\<lparr>extensions := set_or_clear negated m (extensions cfg)\<rparr>)
      | (Extension_bit b, negated) \<Rightarrow>
          Inr (cfg\<lparr>extensions := set_or_clear negated b (extensions cfg)\<rparr>)
      | (Output_flag_bit b, negated) \<Rightarrow>
          Inr (cfg\<lparr>render_flags := set_or_clear negated b (render_flags cfg)\<rparr>)
      | (Not_found, negated) \<Rightarrow>
          (case numeric_option name of
             Some (key, v) \<Rightarrow>
               (case parse_number v of
                  Some n \<Rightarrow> Inr (set_numeric key n cfg)
                | None \<Rightarrow> Inl (Malformed_number tok))
           | None \<Rightarrow>
               (case renderer_option name of
                  Some variant \<Rightarrow> Inr (cfg\<lparr>renderer := variant\<rparr>)
                | None \<Rightarrow> Inl (Unrecognized_option tok))))"

text \<open>
  Modelled from the spec: "iterate tokens in order", and an error "aborts resolution".
\<close>

fun resolve :: "library \<Rightarrow> option_data \<Rightarrow> string list \<Rightarrow> option_error + option_data" where
  "resolve L cfg [] = Inr cfg"
| "resolve L cfg (tok # toks) =
     (case apply_token L cfg tok of
        Inl e \<Rightarrow> Inl e
      | Inr cfg' \<Rightarrow> resolve L cfg' toks)"

text \<open>
  What the claim speaks of, said without the lookup: the names present in the registry
  (a flag name, a category toggle, or either with the negative prefix), the recognized
  numeric options and the renderer-selection options.
\<close>

definition registry_names :: "library \<Rightarrow> string set" where
  "registry_names L =
     set (map option_name (extensions_info L))
     \<union> set (map option_name (html_flags_info L))
     \<union> set (map (\<lambda>c. category_prefix @ extension_category_info.option_name c)
          (categories_info L))"

definition in_registry :: "library \<Rightarrow> string \<Rightarrow> bool" where
  "in_registry L name =
     (name \<in> registry_names L \<or> name \<in> (\<lambda>n. negative_prefix @ n) ` registry_names L)"

definition is_numeric_option :: "string \<Rightarrow> bool" where
  "is_numeric_option name =
     list_ex (\<lambda>k. take (length (k @ ''='')) name = k @ ''='') numeric_keys"

definition is_renderer_option :: "string \<Rightarrow> bool" where
  "is_renderer_option name = (name \<in> {''html'', ''latex'', ''html-toc''})"

section \<open>Properties\<close>

subsection \<open>The run in one equation\<close>

lemma md2html_body_unfold:
  "md2html_body L E data input_data =
     (if \<not> malloc_succeeds E \<and> rendered L data input_data \<noteq> []
        then Inl (Null_pointer_write, calls_before_copy L E data input_data)
      else Inr \<lparr>ret = (if show_time data \<noteq> 0 \<and> (clock_first E = - 1 \<or> clock_second E = - 1)
                        then 1 else 0),
                output_data = (if malloc_succeeds E then Some (rendered L data input_data) else None),
                output_size = length (rendered L data input_data),
                trace = calls_before_copy L E data input_data
                  @ [Memcpy (length (rendered L data input_data)), Buffer_free ob]
                  @ report E data\<rparr>)"
  by (simp add: md2html_body_def Let_def rendered_def document_of_def calls_before_copy_def
      report_def memcpy_def hoedown_buffer_set_def renderer_free_def)

lemma md2html_body_returns:
  "(\<exists>r. md2html_body L E data input_data = Inr r) =
     (malloc_succeeds E \<or> rendered L data input_data = [])"
  by (simp add: md2html_body_unfold)

lemma md2html_body_faults:
  assumes "\<not> malloc_succeeds E" and "rendered L data input_data \<noteq> []"
  shows "md2html_body L E data input_data
           = Inl (Null_pointer_write, calls_before_copy L E data input_data)"
  using assms by (simp add: md2html_body_unfold)

lemma create_renderer_Some: "\<exists>h. create_renderer data = Some h"
  by (cases "renderer data") (simp_all add: create_renderer_def)

lemma released_report [simp]: "List.map_filter released (report E data) = []"
  by (simp add: report_def List.map_filter_simps)

lemma acquired_report [simp]: "List.map_filter acquired (report E data) = []"
  by (simp add: report_def List.map_filter_simps)

lemma audit_report [simp]: "audit held (report E data) = Some held"
  by (simp add: report_def)

lemma map_filter_app:
  "List.map_filter f (es @ fs) = List.map_filter f es @ List.map_filter f fs"
  by (simp add: List.map_filter_def)

lemma audit_append:
  "audit held (es @ fs) = (case audit held es of None \<Rightarrow> None | Some held' \<Rightarrow> audit held' fs)"
  by (induction es arbitrary: held) (auto split: option.splits)

lemma releases_returned:
  assumes "md2html_body L E data input_data = Inr r"
  shows "releases (trace r) = [Input_buffer, The_document, The_renderer, Output_buffer]"
proof -
  obtain h where h: "create_renderer data = Some h"
    using create_renderer_Some by blast
  from assms have "trace r = calls_before_copy L E data input_data
      @ [Memcpy (length (rendered L data input_data)), Buffer_free ob] @ report E data"
    by (auto simp: md2html_body_unfold split: if_splits)
  then show ?thesis
    by (simp add: releases_def calls_before_copy_def h List.map_filter_simps
        map_filter_app)
qed

lemma acquisitions_returned:
  assumes "md2html_body L E data input_data = Inr r"
  shows "acquisitions (trace r) = [Input_buffer, The_renderer, Output_buffer, The_document]"
proof -
  obtain h where h: "create_renderer data = Some h"
    using create_renderer_Some by blast
  from assms have "trace r = calls_before_copy L E data input_data
      @ [Memcpy (length (rendered L data input_data)), Buffer_free ob] @ report E data"
    by (auto simp: md2html_body_unfold split: if_splits)
  then show ?thesis
    by (simp add: acquisitions_def calls_before_copy_def h List.map_filter_simps
        map_filter_app)
qed

lemma audit_returned:
  assumes "md2html_body L E data input_data = Inr r"
  shows "audit [] (trace r) = Some []"
proof -
  obtain h where h: "create_renderer data = Some h"
    using create_renderer_Some by blast
  from assms have "trace r = calls_before_copy L E data input_data
      @ ([Memcpy (length (rendered L data input_data)), Buffer_free ob] @ report E data)"
    by (auto simp: md2html_body_unfold split: if_splits)
  moreover have "audit [] (calls_before_copy L E data input_data) = Some [Output_buffer]"
    by (simp add: calls_before_copy_def h)
  ultimately show ?thesis
    by (simp add: audit_append)
qed

lemma sample_returns: "\<exists>r. md2html sample_library sample_environment sample_input = Inr r"
  by (simp add: md2html_def md2html_body_returns sample_environment_def)

lemma clock_failure_returns:
  "\<exists>r. md2html sample_library clock_failure_environment sample_input = Inr r"
  by (simp add: md2html_def md2html_body_returns clock_failure_environment_def)


lemma calls_of_md2html_body:
  "calls_of (md2html_body L E data input_data) =
     calls_before_copy L E data input_data
     @ (if \<not> malloc_succeeds E \<and> rendered L data input_data \<noteq> [] then []
        else [Memcpy (length (rendered L data input_data)), Buffer_free ob] @ report E data)"
  by (simp add: md2html_body_unfold)

lemma renderer_calls_report [simp]: "filter renderer_call (report E data) = []"
  by (simp add: report_def)

lemma documents_built_report [simp]: "List.map_filter document_built (report E data) = []"
  by (simp add: report_def List.map_filter_simps)

lemma time_message_samples:
  "time_message 10 25 = Time_spent_ms 15
   \<and> time_message 0 1000000 = Time_spent_s 1000000
   \<and> time_message (- 2) 0x7FFFFFFFFFFFFFFF = Time_spent_ms (- 9223372036854775807)"
  by (simp add: time_message_def CLOCKS_PER_SEC_def)

subsection \<open>The defaults\<close>

text \<open>
  C5. The option data every run starts from: renderer HTML, TOC level 0, nesting limit 16,
  input unit 1024, output unit 64, the extensions of the block, span and flags
  categories, and the render flags mermaid, charter, gnuplot and css; \<open>md2html\<close> runs
  its body on exactly these.
\<close>

theorem baseline_defaults:
  "renderer (baseline L) = RENDERER_HTML
   \<and> toc_level (baseline L) = 0
   \<and> max_nesting (baseline L) = 16
   \<and> iunit (baseline L) = 1024
   \<and> ounit (baseline L) = 64
   \<and> extensions (baseline L) =
       ext_bits L HOEDOWN_EXT_BLOCK OR ext_bits L HOEDOWN_EXT_SPAN OR ext_bits L HOEDOWN_EXT_FLAGS
   \<and> render_flags (baseline L) =
       render_bits L SCIDOWN_RENDER_MERMAID OR render_bits L SCIDOWN_RENDER_CHARTER
         OR render_bits L SCIDOWN_RENDER_GNUPLOT OR render_bits L SCIDOWN_RENDER_CSS
   \<and> md2html L E input_data = md2html_body L E (baseline L) input_data"
  by (simp add: baseline_def md2html_def DEF_IUNIT_def DEF_OUNIT_def DEF_MAX_NESTING_def)

subsection \<open>Teardown\<close>




text \<open>
  What holds on the two returns of \<open>md2html\<close> (the failure return after a failed clock
  and the normal one): a run that returns has acquired the two buffers, the renderer and
  the document, has released each of them once and after acquiring it, and holds nothing
  at the return.
\<close>

lemma released_on_both_returns:
  "((\<exists>r. md2html L E input_data = Inr r)
      = (malloc_succeeds E \<or> rendered L (baseline L) input_data = []))
   \<and> (\<forall>r. md2html L E input_data = Inr r \<longrightarrow>
         acquisitions (trace r) = [Input_buffer, The_renderer, Output_buffer, The_document]
         \<and> set (releases (trace r)) = set (acquisitions (trace r))
         \<and> distinct (releases (trace r))
         \<and> audit [] (trace r) = Some [])"
  unfolding md2html_def
  by (auto simp: md2html_body_returns releases_returned acquisitions_returned audit_returned)

text \<open>
  C2. All four resources are to be released under every outcome, an allocation error
  among them. The result of \<open>malloc\<close> is not checked: in the run below \<open>malloc\<close> fails
  and there are four bytes to copy, so the run ends in the \<open>memcpy\<close> through \<open>NULL\<close>. It
  has acquired all four resources and released three; the output buffer, whose release
  comes after the copy, is still held, and nothing is returned.
\<close>

theorem output_buffer_held_on_malloc_failure:
  "md2html sample_library malloc_failure_environment sample_input
     = Inl (Null_pointer_write,
         calls_before_copy sample_library malloc_failure_environment (baseline sample_library)
           sample_input)
   \<and> returned_value (md2html sample_library malloc_failure_environment sample_input) = None
   \<and> last (calls_of (md2html sample_library malloc_failure_environment sample_input))
       = Malloc 4 False
   \<and> acquisitions (calls_of (md2html sample_library malloc_failure_environment sample_input))
       = [Input_buffer, The_renderer, Output_buffer, The_document]
   \<and> releases (calls_of (md2html sample_library malloc_failure_environment sample_input))
       = [Input_buffer, The_document, The_renderer]
   \<and> audit [] (calls_of (md2html sample_library malloc_failure_environment sample_input))
       = Some [Output_buffer]"
proof -
  have rd: "rendered sample_library (baseline sample_library) sample_input = sample_input"
    by (simp add: rendered_def sample_library_def hoedown_buffer_new_def)
  have m: "\<not> malloc_succeeds malloc_failure_environment"
    by (simp add: malloc_failure_environment_def)
  have ne: "sample_input \<noteq> []" and len: "length sample_input = 4"
    by (simp_all add: sample_input_def)
  have run: "md2html sample_library malloc_failure_environment sample_input
     = Inl (Null_pointer_write,
         calls_before_copy sample_library malloc_failure_environment (baseline sample_library)
           sample_input)"
    unfolding md2html_def by (rule md2html_body_faults) (simp_all add: m rd ne)
  obtain h where h: "create_renderer (baseline sample_library) = Some h"
    using create_renderer_Some by blast
  show ?thesis
    unfolding run
    by (simp add: calls_before_copy_def h rd len m acquisitions_def releases_def
        List.map_filter_simps)
qed

subsection \<open>The timing report and the return value\<close>

text \<open>
  C3. When either clock value is \<open>-1\<close>, a run that returns (every run, unless \<open>malloc\<close>
  fails with bytes to copy) returns 1, and the message "Failed to get the time." is its
  last call: the render call and the four releases come before it. The caller's pointer
  and length hold the rendered bytes all the same.
\<close>

theorem clock_failure_after_teardown:
  assumes "clock_first E = - 1 \<or> clock_second E = - 1"
  shows "((\<exists>r. md2html L E input_data = Inr r)
            = (malloc_succeeds E \<or> rendered L (baseline L) input_data = []))
         \<and> (\<forall>r. md2html L E input_data = Inr r \<longrightarrow>
               ret r = 1
               \<and> (\<exists>before. trace r = before @ [Fprintf_stderr Failed_to_get_the_time]
                     \<and> Document_render (document_of (baseline L)) input_data \<in> set before
                     \<and> releases before
                         = [Input_buffer, The_document, The_renderer, Output_buffer])
               \<and> output_size r = length (rendered L (baseline L) input_data)
               \<and> delivered r = rendered L (baseline L) input_data
               \<and> (malloc_succeeds E \<longrightarrow>
                     output_data r = Some (rendered L (baseline L) input_data)))"
proof (intro conjI allI impI)
  show "(\<exists>r. md2html L E input_data = Inr r)
          = (malloc_succeeds E \<or> rendered L (baseline L) input_data = [])"
    by (simp add: md2html_def md2html_body_returns)
next
  fix r
  assume r: "md2html L E input_data = Inr r"
  have st: "show_time (baseline L) = 1"
    by (simp add: baseline_def)
  have rep: "report E (baseline L) = [Fprintf_stderr Failed_to_get_the_time]"
    using assms by (auto simp: report_def st)
  have ok: "malloc_succeeds E \<or> rendered L (baseline L) input_data = []"
    using r md2html_body_returns [of L E "baseline L" input_data] by (auto simp: md2html_def)
  have eq: "r = \<lparr>ret = 1,
       output_data = (if malloc_succeeds E then Some (rendered L (baseline L) input_data) else None),
       output_size = length (rendered L (baseline L) input_data),
       trace = calls_before_copy L E (baseline L) input_data
         @ [Memcpy (length (rendered L (baseline L) input_data)), Buffer_free ob]
         @ [Fprintf_stderr Failed_to_get_the_time]\<rparr>"
    using r ok assms by (auto simp: md2html_def md2html_body_unfold st rep)
  show "ret r = 1" by (simp add: eq)
  show "output_size r = length (rendered L (baseline L) input_data)" by (simp add: eq)
  show "delivered r = rendered L (baseline L) input_data"
    using ok by (auto simp: eq delivered_def)
  show "output_data r = Some (rendered L (baseline L) input_data)" if "malloc_succeeds E"
    using that by (simp add: eq)
  let ?before = "calls_before_copy L E (baseline L) input_data
         @ [Memcpy (length (rendered L (baseline L) input_data)), Buffer_free ob]"
  have rel: "releases (?before @ [Fprintf_stderr Failed_to_get_the_time])
      = [Input_buffer, The_document, The_renderer, Output_buffer]"
    using releases_returned [of L E "baseline L" input_data r] r
    by (simp add: md2html_def eq)
  have "trace r = ?before @ [Fprintf_stderr Failed_to_get_the_time]"
    by (simp add: eq)
  moreover have "Document_render (document_of (baseline L)) input_data \<in> set ?before"
    by (simp add: calls_before_copy_def)
  moreover have "releases ?before = [Input_buffer, The_document, The_renderer, Output_buffer]"
    using rel by (simp add: releases_def map_filter_app List.map_filter_simps)
  ultimately show "\<exists>before. trace r = before @ [Fprintf_stderr Failed_to_get_the_time]
       \<and> Document_render (document_of (baseline L)) input_data \<in> set before
       \<and> releases before = [Input_buffer, The_document, The_renderer, Output_buffer]"
    by blast
qed

theorem clock_failure_after_teardown_witness:
  "(clock_first clock_failure_environment = - 1 \<or> clock_second clock_failure_environment = - 1)
   \<and> (\<exists>r. md2html sample_library clock_failure_environment sample_input = Inr r
          \<and> ret r = 1
          \<and> output_size r = 4
          \<and> output_data r = Some sample_input)"
proof -
  have h: "clock_first clock_failure_environment = - 1
      \<or> clock_second clock_failure_environment = - 1"
    by (simp add: clock_failure_environment_def)
  have rd: "rendered sample_library (baseline sample_library) sample_input = sample_input"
    by (simp add: rendered_def sample_library_def hoedown_buffer_new_def)
  obtain r where r: "md2html sample_library clock_failure_environment sample_input = Inr r"
    using clock_failure_returns by blast
  have m: "malloc_succeeds clock_failure_environment"
    by (simp add: clock_failure_environment_def)
  from clock_failure_after_teardown [OF h, of sample_library sample_input] r m
  have "ret r = 1 \<and> output_size r = length sample_input \<and> output_data r = Some sample_input"
    by (simp add: rd)
  then show ?thesis using h r by (auto simp: sample_input_def)
qed

text \<open>
  C4, as the specification has it: the value 1 is returned for option-parsing errors only.
  \<open>md2html\<close> parses no options, and the run below returns 1: its first clock value is
  \<open>-1\<close>, and the last thing it did was to write "Failed to get the time.".
\<close>

theorem exit_status_counterexample:
  "returned_value (md2html sample_library clock_failure_environment sample_input) = Some 1
   \<and> clock_first clock_failure_environment = - 1
   \<and> last (calls_of (md2html sample_library clock_failure_environment sample_input))
       = Fprintf_stderr Failed_to_get_the_time"
  by (simp add: md2html_def md2html_body_unfold baseline_def clock_failure_environment_def
      report_def)

text \<open>
  C4, amended. The value returned is 0 or 1, and it is 1 exactly when one of the two
  clock values is \<open>-1\<close>; so \<open>md2html\<close> returns 0 on success, 1 for a timing failure, and
  never 4 or 5. (It returns unless \<open>malloc\<close> fails with bytes to copy.)
\<close>

theorem exit_status:
  "((\<exists>r. md2html L E input_data = Inr r)
      = (malloc_succeeds E \<or> rendered L (baseline L) input_data = []))
   \<and> (\<forall>r. md2html L E input_data = Inr r \<longrightarrow>
         (ret r = 0 \<or> ret r = 1)
         \<and> (ret r = 1) = (clock_first E = - 1 \<or> clock_second E = - 1)
         \<and> ret r \<noteq> 4 \<and> ret r \<noteq> 5)"
  by (auto simp: md2html_def md2html_body_unfold baseline_def split: if_splits)

theorem exit_status_witness:
  "(\<exists>r. md2html sample_library sample_environment sample_input = Inr r \<and> ret r = 0)
   \<and> (\<exists>r. md2html sample_library clock_failure_environment sample_input = Inr r \<and> ret r = 1)"
proof -
  obtain r where r: "md2html sample_library sample_environment sample_input = Inr r"
    using sample_returns by blast
  obtain r' where r': "md2html sample_library clock_failure_environment sample_input = Inr r'"
    using clock_failure_returns by blast
  have "ret r = 0"
    using exit_status [of sample_library sample_environment sample_input] r
    by (auto simp: sample_environment_def)
  moreover have "ret r' = 1"
    using exit_status [of sample_library clock_failure_environment sample_input] r'
    by (auto simp: clock_failure_environment_def)
  ultimately show ?thesis using r r' by blast
qed

text \<open>
  C10. The show-time setting is 1 in the option data of every call, and \<open>md2html\<close> takes
  nothing from its caller but the input bytes and the two output pointers. A run
  returns unless \<open>malloc\<close> fails with bytes to copy, and the last call of every run that
  returns is a write to the error stream: the time spent and return value 0 when both
  clock values were obtained, the failure message and return value 1 when one was not.
  With the setting at 0 the same body writes nothing and returns 0: the setting alone
  decides, and no argument of \<open>md2html\<close> reaches it.
\<close>

theorem timing_always_on:
  "show_time (baseline L) = 1
   \<and> ((\<exists>r. md2html L E input_data = Inr r)
        = (malloc_succeeds E \<or> rendered L (baseline L) input_data = []))
   \<and> (\<forall>r. md2html L E input_data = Inr r \<longrightarrow>
         trace r \<noteq> []
         \<and> (if clock_first E = - 1 \<or> clock_second E = - 1
             then last (trace r) = Fprintf_stderr Failed_to_get_the_time \<and> ret r = 1
             else last (trace r) = Fprintf_stderr (time_message (clock_first E) (clock_second E))
                  \<and> ret r = 0))
   \<and> (\<forall>r. md2html_body L E ((baseline L)\<lparr>show_time := 0\<rparr>) input_data = Inr r \<longrightarrow>
         ret r = 0 \<and> (\<forall>m. Fprintf_stderr m \<notin> set (trace r)))"
proof (intro conjI allI impI)
  show "show_time (baseline L) = 1"
    by (simp add: baseline_def)
  show "(\<exists>r. md2html L E input_data = Inr r)
        = (malloc_succeeds E \<or> rendered L (baseline L) input_data = [])"
    by (simp add: md2html_def md2html_body_returns)
next
  fix r
  assume "md2html L E input_data = Inr r"
  then show "trace r \<noteq> []"
    and "if clock_first E = - 1 \<or> clock_second E = - 1
         then last (trace r) = Fprintf_stderr Failed_to_get_the_time \<and> ret r = 1
         else last (trace r) = Fprintf_stderr (time_message (clock_first E) (clock_second E))
              \<and> ret r = 0"
    by (auto simp: md2html_def md2html_body_unfold baseline_def report_def split: if_splits)
next
  fix r
  assume "md2html_body L E ((baseline L)\<lparr>show_time := 0\<rparr>) input_data = Inr r"
  then have "ret r = 0 \<and> trace r = calls_before_copy L E ((baseline L)\<lparr>show_time := 0\<rparr>) input_data
      @ [Memcpy (length (rendered L ((baseline L)\<lparr>show_time := 0\<rparr>) input_data)), Buffer_free ob]"
    by (auto simp: md2html_body_unfold report_def split: if_splits)
  then show "ret r = 0" and "\<And>m. Fprintf_stderr m \<notin> set (trace r)"
    by (simp_all add: calls_before_copy_def)
qed

theorem timing_always_on_witness:
  "(\<exists>r. md2html sample_library sample_environment sample_input = Inr r
        \<and> last (trace r) = Fprintf_stderr (Time_spent_ms 15) \<and> ret r = 0)
   \<and> (\<exists>r. md2html sample_library clock_failure_environment sample_input = Inr r
        \<and> last (trace r) = Fprintf_stderr Failed_to_get_the_time \<and> ret r = 1)"
proof -
  have t: "time_message 10 25 = Time_spent_ms 15"
    using time_message_samples by blast
  have "\<exists>r. md2html sample_library sample_environment sample_input = Inr r"
    using timing_always_on [of sample_library sample_environment sample_input]
    by (simp add: sample_environment_def)
  then obtain r where r: "md2html sample_library sample_environment sample_input = Inr r"
    by blast
  have "\<exists>r. md2html sample_library clock_failure_environment sample_input = Inr r"
    using timing_always_on [of sample_library clock_failure_environment sample_input]
    by (simp add: clock_failure_environment_def)
  then obtain r' where r': "md2html sample_library clock_failure_environment sample_input = Inr r'"
    by blast
  have "last (trace r) = Fprintf_stderr (Time_spent_ms 15) \<and> ret r = 0"
    using timing_always_on [of sample_library sample_environment sample_input] r
    by (auto simp: sample_environment_def t)
  moreover have "last (trace r') = Fprintf_stderr Failed_to_get_the_time \<and> ret r' = 1"
    using timing_always_on [of sample_library clock_failure_environment sample_input] r'
    by (auto simp: clock_failure_environment_def)
  ultimately show ?thesis using r r' by blast
qed

subsection \<open>The bytes handed to the caller\<close>

text \<open>
  C8. For any option data, so for any output unit, a run that returns hands the caller
  exactly the bytes that the render call left in the output buffer, and their number as
  the length; the region holds them when \<open>malloc\<close> succeeded (with no bytes and a failed
  \<open>malloc\<close> the pointer is \<open>NULL\<close> and the length 0). A run returns unless \<open>malloc\<close>
  fails with bytes to copy.
\<close>

theorem output_is_rendered:
  "((\<exists>r. md2html_body L E data input_data = Inr r)
      = (malloc_succeeds E \<or> rendered L data input_data = []))
   \<and> (\<forall>r. md2html_body L E data input_data = Inr r \<longrightarrow>
         delivered r = rendered L data input_data
         \<and> output_size r = length (rendered L data input_data)
         \<and> (malloc_succeeds E \<longrightarrow> output_data r = Some (rendered L data input_data)))"
  by (auto simp: md2html_body_unfold delivered_def split: if_splits)

theorem output_is_rendered_witness:
  "\<exists>r. md2html_body sample_library sample_environment
          (baseline sample_library\<lparr>ounit := 1\<rparr>) sample_input = Inr r
       \<and> output_data r = Some sample_input \<and> output_size r = 4"
proof -
  have rd: "rendered sample_library (baseline sample_library\<lparr>ounit := 1\<rparr>) sample_input
      = sample_input"
    by (simp add: rendered_def sample_library_def hoedown_buffer_new_def)
  have m: "malloc_succeeds sample_environment"
    by (simp add: sample_environment_def)
  have len: "length sample_input = 4"
    by (simp add: sample_input_def)
  from output_is_rendered [of sample_library sample_environment
      "baseline sample_library\<lparr>ounit := 1\<rparr>" sample_input] m
  have "\<exists>r. md2html_body sample_library sample_environment
          (baseline sample_library\<lparr>ounit := 1\<rparr>) sample_input = Inr r
       \<and> output_data r = Some sample_input \<and> output_size r = length sample_input"
    unfolding rd by blast
  then show ?thesis
    unfolding len .
qed

subsection \<open>The renderer and the document payload\<close>



text \<open>
  C7. The two text blocks are set exactly for the HTML renderer: then both are there,
  for the LaTeX and the HTML-with-TOC renderer both are \<open>NULL\<close>. Every run, however it
  ends, constructs one document, and constructs it with the payload so built; for
  \<open>md2html\<close> itself that is the payload with both blocks.
\<close>

theorem payload_html_only:
  "(renderer data = RENDERER_HTML \<longrightarrow>
      make_ext data =
        \<lparr>extra_header = Some html_extra_header, extra_closing = Some html_extra_closing\<rparr>)
   \<and> (renderer data \<noteq> RENDERER_HTML \<longrightarrow>
      make_ext data = \<lparr>extra_header = None, extra_closing = None\<rparr>)
   \<and> ((extra_header (make_ext data) \<noteq> None \<or> extra_closing (make_ext data) \<noteq> None)
        = (renderer data = RENDERER_HTML))
   \<and> map doc_ext (documents_built (calls_of (md2html_body L E data input_data)))
       = [make_ext data]
   \<and> map doc_ext (documents_built (calls_of (md2html L E input_data)))
       = [\<lparr>extra_header = Some html_extra_header, extra_closing = Some html_extra_closing\<rparr>]
   \<and> (\<forall>r d. md2html_body L E data input_data = Inr r \<longrightarrow> Document_new d \<in> set (trace r) \<longrightarrow>
         doc_ext d = make_ext data)"
proof (intro conjI allI impI)
  have built: "map doc_ext (documents_built (calls_of (md2html_body L E d input_data)))
       = [make_ext d]" for d
    by (simp add: calls_of_md2html_body calls_before_copy_def documents_built_def
        map_filter_app List.map_filter_simps document_of_def hoedown_document_new_def)
  show "map doc_ext (documents_built (calls_of (md2html_body L E data input_data)))
       = [make_ext data]"
    by (rule built)
  have "make_ext (baseline L)
      = \<lparr>extra_header = Some html_extra_header, extra_closing = Some html_extra_closing\<rparr>"
    by (simp add: make_ext_def Let_def baseline_def)
  then show "map doc_ext (documents_built (calls_of (md2html L E input_data)))
       = [\<lparr>extra_header = Some html_extra_header, extra_closing = Some html_extra_closing\<rparr>]"
    by (simp add: md2html_def built)
next
  fix r d
  assume r: "md2html_body L E data input_data = Inr r" and d: "Document_new d \<in> set (trace r)"
  from r have "trace r = calls_before_copy L E data input_data
      @ [Memcpy (length (rendered L data input_data)), Buffer_free ob] @ report E data"
    by (auto simp: md2html_body_unfold split: if_splits)
  with d have "d = document_of data"
    by (auto simp: calls_before_copy_def report_def split: if_splits)
  then show "doc_ext d = make_ext data"
    by (simp add: document_of_def hoedown_document_new_def)
qed (simp_all add: make_ext_def Let_def)

theorem payload_html_only_witness:
  "renderer (baseline sample_library) = RENDERER_HTML
   \<and> map doc_ext
       (documents_built (calls_of (md2html sample_library sample_environment sample_input)))
     = [\<lparr>extra_header = Some html_extra_header, extra_closing = Some html_extra_closing\<rparr>]
   \<and> renderer (baseline sample_library\<lparr>renderer := RENDERER_LATEX\<rparr>) \<noteq> RENDERER_HTML
   \<and> map doc_ext
       (documents_built (calls_of (md2html_body sample_library sample_environment
          (baseline sample_library\<lparr>renderer := RENDERER_LATEX\<rparr>) sample_input)))
     = [\<lparr>extra_header = None, extra_closing = None\<rparr>]
   \<and> (\<exists>r. md2html_body sample_library sample_environment
            (baseline sample_library\<lparr>renderer := RENDERER_LATEX\<rparr>) sample_input = Inr r
          \<and> (\<forall>d. Document_new d \<in> set (trace r) \<longrightarrow>
                doc_ext d = \<lparr>extra_header = None, extra_closing = None\<rparr>))"
proof -
  let ?data = "baseline sample_library\<lparr>renderer := RENDERER_LATEX\<rparr>"
  have h: "renderer (baseline sample_library) = RENDERER_HTML"
    by (simp add: baseline_def)
  have l: "renderer ?data \<noteq> RENDERER_HTML"
    by simp
  note html = payload_html_only [of "baseline sample_library" sample_library sample_environment
      sample_input]
  note latex = payload_html_only [of ?data sample_library sample_environment sample_input]
  have e: "make_ext ?data = \<lparr>extra_header = None, extra_closing = None\<rparr>"
    using latex l by blast
  have "malloc_succeeds sample_environment"
    by (simp add: sample_environment_def)
  then obtain r where r: "md2html_body sample_library sample_environment ?data sample_input = Inr r"
    using md2html_body_returns [of sample_library sample_environment ?data sample_input]
    by blast
  have "\<forall>d. Document_new d \<in> set (trace r) \<longrightarrow>
      doc_ext d = \<lparr>extra_header = None, extra_closing = None\<rparr>"
    using latex r e by metis
  moreover have "map doc_ext (documents_built (calls_of (md2html_body sample_library
      sample_environment ?data sample_input))) = [\<lparr>extra_header = None, extra_closing = None\<rparr>]"
    using latex e by metis
  moreover have "map doc_ext
       (documents_built (calls_of (md2html sample_library sample_environment sample_input)))
     = [\<lparr>extra_header = Some html_extra_header, extra_closing = Some html_extra_closing\<rparr>]"
    using html by blast
  ultimately show ?thesis
    using h l r by blast
qed

subsection \<open>Unknown tokens\<close>

lemma strip_prefix_Some: "(strip_prefix p s = Some rest) = (s = p @ rest)"
  by (auto simp: strip_prefix_def) (metis append_take_drop_id)

lemma strip_prefix_None: "(strip_prefix p s = None) = (\<forall>rest. s \<noteq> p @ rest)"
  by (metis strip_prefix_Some not_Some_eq)

lemma registry_lookup_Not_found:
  "(registry_lookup L name = Not_found) = (name \<notin> registry_names L)"
proof -
  have "(registry_lookup L name = Not_found) =
      (find (\<lambda>c. category_prefix @ extension_category_info.option_name c = name)
          (categories_info L) = None
       \<and> find (\<lambda>e. option_name e = name) (extensions_info L) = None
       \<and> find (\<lambda>h. option_name h = name) (html_flags_info L) = None)"
    by (simp add: registry_lookup_def split: option.splits)
  also have "\<dots> = (name \<notin> registry_names L)"
    unfolding find_None_iff registry_names_def by auto
  finally show ?thesis .
qed

lemma resolve_name_Not_found:
  assumes "\<not> in_registry L name"
  shows "fst (resolve_name L name) = Not_found"
proof -
  from assms have a: "registry_lookup L name = Not_found"
    by (simp add: in_registry_def registry_lookup_Not_found)
  show ?thesis
  proof (cases "strip_prefix negative_prefix name")
    case None
    with a show ?thesis by (simp add: resolve_name_def)
  next
    case (Some rest)
    then have "name = negative_prefix @ rest"
      by (simp add: strip_prefix_Some)
    with assms have "rest \<notin> registry_names L"
      by (auto simp: in_registry_def)
    then have "registry_lookup L rest = Not_found"
      by (simp add: registry_lookup_Not_found)
    with a Some show ?thesis by (simp add: resolve_name_def)
  qed
qed

lemma numeric_option_None:
  assumes "\<not> is_numeric_option name"
  shows "numeric_option name = None"
proof -
  have "\<forall>k \<in> set numeric_keys. strip_prefix (k @ ''='') name = None"
    using assms by (auto simp: is_numeric_option_def strip_prefix_def list_ex_iff)
  then have "find (\<lambda>k. strip_prefix (k @ ''='') name \<noteq> None) numeric_keys = None"
    by (simp add: find_None_iff)
  then show ?thesis by (simp add: numeric_option_def)
qed

lemma renderer_option_None: "\<not> is_renderer_option name \<Longrightarrow> renderer_option name = None"
  by (simp add: is_renderer_option_def renderer_option_def)

lemma apply_token_unknown:
  assumes "\<not> in_registry L (option_text tok)"
    and "\<not> is_numeric_option (option_text tok)"
    and "\<not> is_renderer_option (option_text tok)"
  shows "apply_token L cfg tok = Inl (Unrecognized_option tok)"
proof -
  obtain negated where "resolve_name L (option_text tok) = (Not_found, negated)"
    using resolve_name_Not_found [OF assms(1)] by (cases "resolve_name L (option_text tok)") simp
  then show ?thesis
    by (simp add: apply_token_def numeric_option_None [OF assms(2)]
        renderer_option_None [OF assms(3)])
qed

lemma resolve_append:
  "resolve L cfg (before @ rest) =
     (case resolve L cfg before of Inl e \<Rightarrow> Inl e | Inr cfg' \<Rightarrow> resolve L cfg' rest)"
  by (induction before arbitrary: cfg) (auto split: sum.splits)

text \<open>
  C9. A token whose text is no name of the registry (flag name, category toggle, or a
  negation of one), no numeric option and no renderer option is answered with the
  unrecognized-option error, whatever the configuration; and a token sequence that holds
  such a token never resolves to a configuration: resolution ends in an error, and in
  the error for this token when the tokens before it resolve.
\<close>

theorem unknown_token_is_an_error:
  assumes "\<not> in_registry L (option_text tok)"
    and "\<not> is_numeric_option (option_text tok)"
    and "\<not> is_renderer_option (option_text tok)"
  shows "apply_token L cfg tok = Inl (Unrecognized_option tok)
         \<and> (\<exists>e. resolve L cfg (before @ tok # after) = Inl e)
         \<and> (\<forall>cfg'. resolve L cfg before = Inr cfg' \<longrightarrow>
               resolve L cfg (before @ tok # after) = Inl (Unrecognized_option tok))"
proof -
  have u: "apply_token L c tok = Inl (Unrecognized_option tok)" for c
    using assms by (rule apply_token_unknown)
  show ?thesis
    by (cases "resolve L cfg before") (simp_all add: u resolve_append)
qed

lemma sample_registry_names:
  \<open>registry_names sample_library =
     {''tables'', ''fenced-code'', ''footnotes'', ''autolink'', ''strikethrough'', ''underline'',
      ''highlight'', ''quote'', ''superscript'', ''math'', ''disable-intra-emphasis'',
      ''space-headers'', ''math-explicit'', ''scidown'', ''disable-indented-code'',
      ''skip-html'', ''escape'', ''hard-wrap'', ''xhtml'', ''mermaid'', ''gnuplot'', ''style'',
      ''all-block'', ''all-span'', ''all-flags'', ''all-negative''}\<close>
  by (simp add: registry_names_def extensions_info_def html_flags_info_def categories_info_def
      category_prefix_def insert_commute)

lemma frobnicate_unknown:
  "\<not> in_registry sample_library ''frobnicate''
   \<and> \<not> is_numeric_option ''frobnicate''
   \<and> \<not> is_renderer_option ''frobnicate''"
  by (simp add: in_registry_def sample_registry_names negative_prefix_def
      is_numeric_option_def numeric_keys_def is_renderer_option_def image_iff)

text \<open>The resolver on the tokens the specification gives as examples.\<close>

lemma last_write_wins:
  "resolve sample_library (baseline sample_library) [''--tables'', ''--no-tables''] =
     Inr (baseline sample_library\<lparr>extensions := 0x3FFE\<rparr>)"
  by (simp add: apply_token_def option_text_def strip_prefix_def resolve_name_def
      registry_lookup_def categories_info_def extensions_info_def html_flags_info_def
      category_prefix_def negative_prefix_def sample_library_def set_or_clear_def baseline_def)

lemma numeric_parsing:
  "resolve sample_library (baseline sample_library) [''max-nesting=16'']
     = Inr (baseline sample_library\<lparr>max_nesting := 16\<rparr>)
   \<and> resolve sample_library (baseline sample_library) [''max-nesting=abc'']
     = Inl (Malformed_number ''max-nesting=abc'')"
  by (simp add: apply_token_def option_text_def strip_prefix_def resolve_name_def
      registry_lookup_def categories_info_def extensions_info_def html_flags_info_def
      category_prefix_def negative_prefix_def sample_library_def numeric_option_def
      numeric_keys_def parse_number_def is_digit_def set_numeric_def)

lemma tables_resolves:
  "resolve sample_library (baseline sample_library) [''--tables''] =
     Inr (baseline sample_library\<lparr>extensions := 0x3FFF\<rparr>)"
  by (simp add: apply_token_def option_text_def strip_prefix_def resolve_name_def
      registry_lookup_def categories_info_def extensions_info_def category_prefix_def
      sample_library_def set_or_clear_def baseline_def)

theorem unknown_token_is_an_error_witness:
  "\<not> in_registry sample_library (option_text ''--frobnicate'')
   \<and> \<not> is_numeric_option (option_text ''--frobnicate'')
   \<and> \<not> is_renderer_option (option_text ''--frobnicate'')
   \<and> resolve sample_library (baseline sample_library) [''--tables'', ''--frobnicate'', ''--html'']
       = Inl (Unrecognized_option ''--frobnicate'')"
proof -
  have t: "option_text ''--frobnicate'' = ''frobnicate''"
    by (simp add: option_text_def strip_prefix_def)
  have h: "\<not> in_registry sample_library (option_text ''--frobnicate'')"
    "\<not> is_numeric_option (option_text ''--frobnicate'')"
    "\<not> is_renderer_option (option_text ''--frobnicate'')"
    using frobnicate_unknown by (simp_all add: t)
  from unknown_token_is_an_error [OF h, of "baseline sample_library" "[''--tables'']" "[''--html'']"]
  have "resolve sample_library (baseline sample_library)
          ([''--tables''] @ ''--frobnicate'' # [''--html''])
        = Inl (Unrecognized_option ''--frobnicate'')"
    using tables_resolves by blast
  then show ?thesis using h by simp
qed

end
